theory Spec2Isabelle
  imports Main
begin

section \<open>JavaScript values\<close>

text \<open>
  The coordinator in \<^verbatim>\<open>frontend/App.js\<close> is untyped: its callbacks receive any
  JavaScript value. Numbers are represented by integers plus \<open>NaN\<close>; the coordinator only
  tests numbers for truthiness, where every non-zero number behaves alike. An object is
  the list of its own properties, the first binding of a key being the one that is read.
  A function is its name together with what it returns when called with one argument:
  a list of exceptions (argument, result) and the result for every other argument.
  Functions are pure and return a value.
\<close>

datatype jsval =
    JUndefined
  | JNull
  | JBool bool
  | JNum int
  | JNaN
  | JBigInt int
  | JStr string
  | JSymbol string
  | JFun string "(jsval \<times> jsval) list" jsval
  | JObj "(string \<times> jsval) list"

text \<open>\<^verbatim>\<open>!!v\<close>: the falsy values are \<^verbatim>\<open>undefined, null, false, 0, NaN, 0n\<close> and \<^verbatim>\<open>""\<close>.\<close>

fun truthy :: "jsval \<Rightarrow> bool" where
  "truthy JUndefined = False"
| "truthy JNull = False"
| "truthy (JBool b) = b"
| "truthy (JNum n) = (n \<noteq> 0)"
| "truthy JNaN = False"
| "truthy (JBigInt n) = (n \<noteq> 0)"
| "truthy (JStr s) = (s \<noteq> [])"
| "truthy (JSymbol d) = True"
| "truthy (JFun n graph dflt) = True"
| "truthy (JObj ps) = True"

fun js_typeof :: "jsval \<Rightarrow> string" where
  "js_typeof JUndefined = ''undefined''"
| "js_typeof JNull = ''object''"
| "js_typeof (JBool b) = ''boolean''"
| "js_typeof (JNum n) = ''number''"
| "js_typeof JNaN = ''number''"
| "js_typeof (JBigInt n) = ''bigint''"
| "js_typeof (JStr s) = ''string''"
| "js_typeof (JSymbol d) = ''symbol''"
| "js_typeof (JFun n graph dflt) = ''function''"
| "js_typeof (JObj ps) = ''object''"

text \<open>
  Reading a property of a value that is neither \<^verbatim>\<open>null\<close> nor \<^verbatim>\<open>undefined\<close>. A missing
  property reads as \<^verbatim>\<open>undefined\<close>; a function carries its \<^verbatim>\<open>name\<close>.
\<close>

fun js_prop :: "jsval \<Rightarrow> string \<Rightarrow> jsval" where
  "js_prop (JObj ps) k = (case map_of ps k of Some v \<Rightarrow> v | None \<Rightarrow> JUndefined)"
| "js_prop (JFun n graph dflt) k = (if k = ''name'' then JStr n else JUndefined)"
| "js_prop v k = JUndefined"

datatype js_error = TypeError

text \<open>
  \<^verbatim>\<open>const { name, highlightTimestamp, highlightIndex, avatarUrl, headline } = v\<close>:
  destructuring \<^verbatim>\<open>null\<close> or \<^verbatim>\<open>undefined\<close> throws a \<^verbatim>\<open>TypeError\<close>.
\<close>

definition destructure ::
  "jsval \<Rightarrow> js_error + (jsval \<times> jsval \<times> jsval \<times> jsval \<times> jsval)" where
  "destructure v =
     (if v = JNull \<or> v = JUndefined then Inl TypeError
      else Inr (js_prop v ''name'', js_prop v ''highlightTimestamp'',
                js_prop v ''highlightIndex'', js_prop v ''avatarUrl'',
                js_prop v ''headline''))"

section \<open>The consent store\<close>

text \<open>
  Modelled from the spec: \<^verbatim>\<open>AsyncStorage\<close> is an external library, used through
  \<^verbatim>\<open>getItem(key) -> Promise<string|null>\<close> and \<^verbatim>\<open>setItem(key, value) -> Promise<void>\<close>;
  a failure is a rejected promise. The store is the list of its entries together with
  two flags of the environment saying whether a read, respectively a write, rejects.
  A rejected write leaves the entries as they were.
\<close>

record async_storage =
  entries :: "(string \<times> string) list"
  read_rejects :: bool
  write_rejects :: bool

datatype storage_error = StorageError

definition getItem :: "async_storage \<Rightarrow> string \<Rightarrow> storage_error + jsval" where
  "getItem st key =
     (if read_rejects st then Inl StorageError
      else Inr (case map_of (entries st) key of None \<Rightarrow> JNull | Some v \<Rightarrow> JStr v))"

definition setItem ::
  "async_storage \<Rightarrow> string \<Rightarrow> string \<Rightarrow> storage_error + async_storage" where
  "setItem st key v =
     (if write_rejects st then Inl StorageError
      else Inr (st\<lparr>entries := (key, v) # filter (\<lambda>kv. fst kv \<noteq> key) (entries st)\<rparr>))"

definition empty_storage :: async_storage where
  "empty_storage = \<lparr>entries = [], read_rejects = False, write_rejects = False\<rparr>"

section \<open>The state of the App component\<close>

definition AGREEMENT_STORAGE_KEY :: string where
  "AGREEMENT_STORAGE_KEY = ''upload_agreement_accepted_v1''"

text \<open>The six \<^verbatim>\<open>useState\<close> cells of \<^verbatim>\<open>App\<close>, with their initial values.\<close>

record app_state =
  activeTab :: jsval
  activeConversation :: jsval
  hasAcceptedAgreement :: bool
  isCheckingAgreement :: bool
  agreementChecked :: bool
  isRetroTheme :: bool

definition initial_state :: app_state where
  "initial_state =
     \<lparr>activeTab = JStr ''home'', activeConversation = JNull,
      hasAcceptedAgreement = False, isCheckingAgreement = True,
      agreementChecked = False, isRetroTheme = False\<rparr>"

text \<open>
  The setter that \<^verbatim>\<open>useState\<close> returns: an argument that is a function is an updater,
  called with the previous value of the cell, and what it returns is stored; any other
  argument is stored as it is.
\<close>

fun setState :: "jsval \<Rightarrow> jsval \<Rightarrow> jsval" where
  "setState (JFun n graph dflt) prev = (case map_of graph prev of Some r \<Rightarrow> r | None \<Rightarrow> dflt)"
| "setState v prev = v"

text \<open>
  A handler is the list of the effects it performs, in order: calls of the state setters
  and of \<^verbatim>\<open>console.warn\<close>. \<open>SetActiveTab v\<close> and \<open>SetActiveConversation v\<close> are the
  calls \<^verbatim>\<open>setActiveTab(v)\<close> and \<^verbatim>\<open>setActiveConversation(v)\<close>;
  \<open>FlipAgreementChecked\<close> and \<open>FlipIsRetroTheme\<close> are the two functional updates
  \<^verbatim>\<open>(prev) => !prev\<close>. The setters of the boolean cells are only ever called with the
  literals \<^verbatim>\<open>true\<close> and \<^verbatim>\<open>false\<close>.
\<close>

datatype action =
    SetActiveTab jsval
  | SetActiveConversation jsval
  | SetHasAcceptedAgreement bool
  | SetIsCheckingAgreement bool
  | FlipAgreementChecked
  | FlipIsRetroTheme
  | ConsoleWarn string

fun apply_action :: "action \<Rightarrow> app_state \<Rightarrow> app_state" where
  "apply_action (SetActiveTab t) s = s\<lparr>activeTab := setState t (activeTab s)\<rparr>"
| "apply_action (SetActiveConversation c) s =
     s\<lparr>activeConversation := setState c (activeConversation s)\<rparr>"
| "apply_action (SetHasAcceptedAgreement b) s = s\<lparr>hasAcceptedAgreement := b\<rparr>"
| "apply_action (SetIsCheckingAgreement b) s = s\<lparr>isCheckingAgreement := b\<rparr>"
| "apply_action FlipAgreementChecked s = s\<lparr>agreementChecked := \<not> agreementChecked s\<rparr>"
| "apply_action FlipIsRetroTheme s = s\<lparr>isRetroTheme := \<not> isRetroTheme s\<rparr>"
| "apply_action (ConsoleWarn m) s = s"

fun apply_actions :: "action list \<Rightarrow> app_state \<Rightarrow> app_state" where
  "apply_actions [] s = s"
| "apply_actions (a # as) s = apply_actions as (apply_action a s)"

section \<open>The handlers\<close>

text \<open>
  \<^verbatim>\<open>checkAgreementStatus\<close> (lines 35 to 48): the \<^verbatim>\<open>try\<close> body reads the store and
  compares with \<^verbatim>\<open>===\<close>, the \<^verbatim>\<open>catch\<close> logs, the \<^verbatim>\<open>finally\<close> runs on both paths.
\<close>

definition checkAgreementStatus :: "async_storage \<Rightarrow> action list" where
  "checkAgreementStatus st =
     (case getItem st AGREEMENT_STORAGE_KEY of
        Inr storedValue \<Rightarrow>
          (if storedValue = JStr ''true'' then [SetHasAcceptedAgreement True] else [])
      | Inl error \<Rightarrow> [ConsoleWarn ''Failed to read agreement preference''])
     @ [SetIsCheckingAgreement False]"

text \<open>\<^verbatim>\<open>handleAcceptAgreement\<close> (lines 53 to 60); the store after the call is returned too.\<close>

definition handleAcceptAgreement :: "async_storage \<Rightarrow> action list \<times> async_storage" where
  "handleAcceptAgreement st =
     (case setItem st AGREEMENT_STORAGE_KEY ''true'' of
        Inr st' \<Rightarrow> ([SetHasAcceptedAgreement True], st')
      | Inl error \<Rightarrow> ([ConsoleWarn ''Failed to save agreement acceptance''], st))"

text \<open>\<^verbatim>\<open>handleOpenConversation\<close> (lines 62 to 81).\<close>

definition handleOpenConversation :: "jsval \<Rightarrow> js_error + action list" where
  "handleOpenConversation payload =
     (if \<not> truthy payload then Inr []
      else
        let normalizedPayload =
              (if js_typeof payload = ''string'' then JObj [(''name'', payload)] else payload)
        in
          if \<not> truthy normalizedPayload \<or> js_typeof normalizedPayload \<noteq> ''object''
          then Inr []
          else
            (case destructure normalizedPayload of
               Inl e \<Rightarrow> Inl e
             | Inr (name, highlightTimestamp, highlightIndex, avatarUrl, headline) \<Rightarrow>
                 if \<not> truthy name then Inr []
                 else Inr
                   [SetActiveConversation
                      (JObj [(''name'', name),
                             (''highlightTimestamp'', highlightTimestamp),
                             (''highlightIndex'', highlightIndex),
                             (''avatarUrl'', avatarUrl),
                             (''headline'', headline)]),
                    SetActiveTab (JStr ''memory'')]))"

text \<open>\<^verbatim>\<open>handleNavigateTab\<close> (lines 83 to 87).\<close>

definition handleNavigateTab :: "jsval \<Rightarrow> action list" where
  "handleNavigateTab tab =
     (if \<not> truthy tab then [] else [SetActiveConversation JNull, SetActiveTab tab])"

text \<open>\<^verbatim>\<open>handleToggleTheme\<close> (lines 89 to 91).\<close>

definition handleToggleTheme :: "action list" where
  "handleToggleTheme = [FlipIsRetroTheme]"

text \<open>The inline handlers of the markup: \<^verbatim>\<open>onBack\<close>, the checkbox, the four nav items.\<close>

definition onBack :: "action list" where
  "onBack = [SetActiveConversation JNull]"

definition onPressCheckbox :: "action list" where
  "onPressCheckbox = [FlipAgreementChecked]"

datatype nav_item = NavHome | NavUpload | NavHighlights | NavMemory

fun nav_tab :: "nav_item \<Rightarrow> string" where
  "nav_tab NavHome = ''home''"
| "nav_tab NavUpload = ''upload''"
| "nav_tab NavHighlights = ''highlights''"
| "nav_tab NavMemory = ''memory''"

definition onPressNavItem :: "nav_item \<Rightarrow> action list" where
  "onPressNavItem n = [SetActiveConversation JNull, SetActiveTab (JStr (nav_tab n))]"

section \<open>The rendering rule\<close>

datatype screen =
    HomeScreen
  | PeopleScreen
  | UploadScreen
  | ConversationScreen "(string \<times> jsval) list"
  | HighlightsScreen
  | RetroHomeScreen
  | RetroPeopleScreen
  | RetroUploadScreen
  | RetroConversationScreen "(string \<times> jsval) list"
  | RetroHighlightsScreen

fun is_conversation_screen :: "screen \<Rightarrow> bool" where
  "is_conversation_screen (ConversationScreen props) = True"
| "is_conversation_screen (RetroConversationScreen props) = True"
| "is_conversation_screen sc = False"

fun is_tab_screen :: "screen \<Rightarrow> bool" where
  "is_tab_screen (ConversationScreen props) = False"
| "is_tab_screen (RetroConversationScreen props) = False"
| "is_tab_screen sc = True"

text \<open>The props handed to either conversation screen (lines 161 to 165).\<close>

definition conversationProps :: "jsval \<Rightarrow> (string \<times> jsval) list" where
  "conversationProps c =
     [(''name'', js_prop c ''name''),
      (''avatarUrl'', js_prop c ''avatarUrl''),
      (''headline'', js_prop c ''headline''),
      (''highlightTimestamp'', js_prop c ''highlightTimestamp''),
      (''highlightIndex'', js_prop c ''highlightIndex'')]"

text \<open>
  The fragment of lines 179 to 214: four conditionally rendered screens, each guarded
  by a comparison of \<^verbatim>\<open>activeTab\<close> with \<^verbatim>\<open>===\<close>.
\<close>

definition tabScreens :: "bool \<Rightarrow> jsval \<Rightarrow> screen list" where
  "tabScreens retro tab =
     (if tab = JStr ''home'' then [if retro then RetroHomeScreen else HomeScreen] else [])
     @ (if tab = JStr ''upload'' then [if retro then RetroUploadScreen else UploadScreen]
        else [])
     @ (if tab = JStr ''memory'' then [if retro then RetroPeopleScreen else PeopleScreen]
        else [])
     @ (if tab = JStr ''highlights''
        then [if retro then RetroHighlightsScreen else HighlightsScreen] else [])"

text \<open>The ternary of lines 158 to 215: the screens mounted inside the container.\<close>

definition renderedScreens :: "app_state \<Rightarrow> screen list" where
  "renderedScreens s =
     (if truthy (activeConversation s)
      then [if isRetroTheme s
            then RetroConversationScreen (conversationProps (activeConversation s))
            else ConversationScreen (conversationProps (activeConversation s))]
      else tabScreens (isRetroTheme s) (activeTab s))"

text \<open>
  What \<^verbatim>\<open>App\<close> returns (lines 93 to 339): the loading view, the agreement form (with
  the state of its checkbox; the button is disabled unless it is ticked), or the
  container with its screens and whether the theme toggle is shown (line 217).
\<close>

datatype view =
    LoadingView
  | AgreementView bool
  | ContainerView "screen list" bool

definition render :: "app_state \<Rightarrow> view" where
  "render s =
     (if isCheckingAgreement s then LoadingView
      else if \<not> hasAcceptedAgreement s then AgreementView (agreementChecked s)
      else ContainerView (renderedScreens s)
             (\<not> truthy (activeConversation s) \<and> activeTab s = JStr ''home''))"

section \<open>Running a session\<close>

text \<open>
  A session is the component state together with the store. An event is one call of a
  handler, or the environment changing whether the store rejects. No event is gated on
  what is on screen: every handler may be called in every state. The two asynchronous
  handlers run to completion within their event; what they do after the \<^verbatim>\<open>await\<close> is to
  call setters with constant arguments, so it does not depend on the state at that time.
  A handler that throws has called no setter, and leaves the session as it was.
\<close>

type_synonym session = "app_state \<times> async_storage"

datatype event =
    CheckAgreementStatus
  | AcceptAgreement
  | OpenConversation jsval
  | NavigateTab jsval
  | CloseConversation
  | ToggleTheme
  | PressCheckbox
  | PressNavItem nav_item
  | StoreRejects bool bool

fun dispatch :: "event \<Rightarrow> session \<Rightarrow> session" where
  "dispatch CheckAgreementStatus (s, st) = (apply_actions (checkAgreementStatus st) s, st)"
| "dispatch AcceptAgreement (s, st) =
     (apply_actions (fst (handleAcceptAgreement st)) s, snd (handleAcceptAgreement st))"
| "dispatch (OpenConversation payload) (s, st) =
     (case handleOpenConversation payload of
        Inl e \<Rightarrow> (s, st)
      | Inr acts \<Rightarrow> (apply_actions acts s, st))"
| "dispatch (NavigateTab tab) (s, st) = (apply_actions (handleNavigateTab tab) s, st)"
| "dispatch CloseConversation (s, st) = (apply_actions onBack s, st)"
| "dispatch ToggleTheme (s, st) = (apply_actions handleToggleTheme s, st)"
| "dispatch PressCheckbox (s, st) = (apply_actions onPressCheckbox s, st)"
| "dispatch (PressNavItem n) (s, st) = (apply_actions (onPressNavItem n) s, st)"
| "dispatch (StoreRejects r w) (s, st) = (s, st\<lparr>read_rejects := r, write_rejects := w\<rparr>)"

fun run :: "event list \<Rightarrow> session \<Rightarrow> session" where
  "run [] sys = sys"
| "run (e # es) sys = run es (dispatch e sys)"

section \<open>Notions used by the properties\<close>

fun is_SetIsCheckingAgreement :: "action \<Rightarrow> bool" where
  "is_SetIsCheckingAgreement (SetIsCheckingAgreement b) = True"
| "is_SetIsCheckingAgreement a = False"

text \<open>An effect that would take the acceptance back.\<close>

fun revokes :: "action \<Rightarrow> bool" where
  "revokes (SetHasAcceptedAgreement b) = (\<not> b)"
| "revokes a = False"

text \<open>The store holds the acceptance: the fixed key is mapped to \<^verbatim>\<open>"true"\<close>.\<close>

definition persisted :: "async_storage \<Rightarrow> bool" where
  "persisted st = (map_of (entries st) AGREEMENT_STORAGE_KEY = Some ''true'')"

text \<open>
  The specification's notion of the name a payload carries: a conversation target's name
  is a non-empty string, given either as the payload itself or as the \<^verbatim>\<open>name\<close> field of
  an object payload. This definition follows the specification's data model, not the
  code; it is what the code's guard is compared with.
\<close>

fun resolvable_name :: "jsval \<Rightarrow> string option" where
  "resolvable_name (JStr n) = (if n \<noteq> [] then Some n else None)"
| "resolvable_name (JObj ps) =
     (case map_of ps ''name'' of
        Some (JStr n) \<Rightarrow> (if n \<noteq> [] then Some n else None)
      | _ \<Rightarrow> None)"
| "resolvable_name v = None"

text \<open>The four tab identifiers the rendering rule compares \<^verbatim>\<open>activeTab\<close> with.\<close>

definition tab_identifiers :: "jsval list" where
  "tab_identifiers = [JStr ''home'', JStr ''upload'', JStr ''memory'', JStr ''highlights'']"

text \<open>
  The object literal of lines 73 to 79, as a function of the normalised payload whose
  fields it copies.
\<close>

definition normalizedTarget :: "jsval \<Rightarrow> jsval" where
  "normalizedTarget p =
     JObj [(''name'', js_prop p ''name''),
           (''highlightTimestamp'', js_prop p ''highlightTimestamp''),
           (''highlightIndex'', js_prop p ''highlightIndex''),
           (''avatarUrl'', js_prop p ''avatarUrl''),
           (''headline'', js_prop p ''headline'')]"

section \<open>Auxiliary facts\<close>

lemma run_append: "run (es1 @ es2) sys = run es2 (run es1 sys)"
  by (induction es1 arbitrary: sys) simp_all

lemma checkAgreementStatus_cases:
  "checkAgreementStatus st =
     (if read_rejects st
      then [ConsoleWarn ''Failed to read agreement preference'', SetIsCheckingAgreement False]
      else if map_of (entries st) AGREEMENT_STORAGE_KEY = Some ''true''
      then [SetHasAcceptedAgreement True, SetIsCheckingAgreement False]
      else [SetIsCheckingAgreement False])"
  by (simp add: checkAgreementStatus_def getItem_def split: option.splits)

lemma handleAcceptAgreement_cases:
  "handleAcceptAgreement st =
     (if write_rejects st then ([ConsoleWarn ''Failed to save agreement acceptance''], st)
      else ([SetHasAcceptedAgreement True],
            st\<lparr>entries := (AGREEMENT_STORAGE_KEY, ''true'')
                 # filter (\<lambda>kv. fst kv \<noteq> AGREEMENT_STORAGE_KEY) (entries st)\<rparr>))"
  by (simp add: handleAcceptAgreement_def setItem_def)

text \<open>The four ways through \<^verbatim>\<open>handleOpenConversation\<close>, by the kind of the payload.\<close>

lemma handleOpenConversation_falsy:
  "\<not> truthy p \<Longrightarrow> handleOpenConversation p = Inr []"
  by (simp add: handleOpenConversation_def)

lemma handleOpenConversation_other:
  "js_typeof p \<noteq> ''string'' \<Longrightarrow> js_typeof p \<noteq> ''object'' \<Longrightarrow>
   handleOpenConversation p = Inr []"
  by (simp add: handleOpenConversation_def)

lemma handleOpenConversation_string:
  "handleOpenConversation (JStr n) =
     (if n = [] then Inr []
      else Inr [SetActiveConversation (normalizedTarget (JObj [(''name'', JStr n)])),
                SetActiveTab (JStr ''memory'')])"
  by (simp add: handleOpenConversation_def destructure_def normalizedTarget_def)

lemma handleOpenConversation_object:
  "handleOpenConversation (JObj ps) =
     (if truthy (js_prop (JObj ps) ''name'')
      then Inr [SetActiveConversation (normalizedTarget (JObj ps)),
                SetActiveTab (JStr ''memory'')]
      else Inr [])"
  by (simp add: handleOpenConversation_def destructure_def normalizedTarget_def)

lemma handleOpenConversation_never_revokes:
  "handleOpenConversation p = Inr acts \<Longrightarrow> a \<in> set acts \<Longrightarrow> \<not> revokes a"
  by (cases p)
     (auto simp: handleOpenConversation_string handleOpenConversation_object
                 handleOpenConversation_other handleOpenConversation_falsy
           split: if_splits)

text \<open>
  No handler calls \<^verbatim>\<open>setHasAcceptedAgreement(false)\<close>, so no event takes the acceptance
  back.
\<close>

lemma apply_actions_keeps_accepted:
  "\<forall>a \<in> set acts. \<not> revokes a \<Longrightarrow> hasAcceptedAgreement s \<Longrightarrow>
   hasAcceptedAgreement (apply_actions acts s)"
proof (induction acts arbitrary: s)
  case Nil
  then show ?case by simp
next
  case (Cons a acts)
  have "hasAcceptedAgreement (apply_action a s)"
    using Cons.prems by (cases a) auto
  with Cons show ?case by simp
qed

lemma dispatch_keeps_accepted:
  assumes "hasAcceptedAgreement (fst sys)"
  shows "hasAcceptedAgreement (fst (dispatch e sys))"
proof -
  obtain s st where sys: "sys = (s, st)" by (cases sys)
  with assms have acc: "hasAcceptedAgreement s" by simp
  show ?thesis
  proof (cases e)
    case CheckAgreementStatus
    then show ?thesis using acc sys
      by (simp add: checkAgreementStatus_cases)
  next
    case AcceptAgreement
    then show ?thesis using acc sys
      by (simp add: handleAcceptAgreement_cases)
  next
    case (OpenConversation p)
    show ?thesis
    proof (cases "handleOpenConversation p")
      case (Inl err)
      then show ?thesis using acc sys OpenConversation by simp
    next
      case (Inr acts)
      then have "\<forall>a \<in> set acts. \<not> revokes a"
        using handleOpenConversation_never_revokes by blast
      then show ?thesis using acc sys OpenConversation Inr
        by (simp add: apply_actions_keeps_accepted)
    qed
  next
    case (NavigateTab t)
    then show ?thesis using acc sys by (simp add: handleNavigateTab_def)
  next
    case CloseConversation
    then show ?thesis using acc sys by (simp add: onBack_def)
  next
    case ToggleTheme
    then show ?thesis using acc sys by (simp add: handleToggleTheme_def)
  next
    case PressCheckbox
    then show ?thesis using acc sys by (simp add: onPressCheckbox_def)
  next
    case (PressNavItem n)
    then show ?thesis using acc sys by (simp add: onPressNavItem_def)
  next
    case (StoreRejects r w)
    then show ?thesis using acc sys by simp
  qed
qed

lemma run_keeps_accepted:
  "hasAcceptedAgreement (fst sys) \<Longrightarrow> hasAcceptedAgreement (fst (run es sys))"
  by (induction es arbitrary: sys) (simp_all add: dispatch_keeps_accepted)

section \<open>The agreement gate\<close>

text \<open>
  Claim C2. The consent check fails closed. \<^verbatim>\<open>checkAgreementStatus\<close> calls
  \<^verbatim>\<open>setHasAcceptedAgreement(true)\<close> if and only if the read of the fixed key returns
  exactly the string \<^verbatim>\<open>"true"\<close>. Starting from a state that has not accepted,
  \<^verbatim>\<open>hasAcceptedAgreement\<close> is true afterwards exactly in that case; for every other
  outcome of the read (no entry, any other string, a rejected read) it stays false and
  the agreement form is what is rendered.
\<close>

theorem checkAgreementStatus_fail_closed:
  "(SetHasAcceptedAgreement True \<in> set (checkAgreementStatus st)
      \<longleftrightarrow> getItem st AGREEMENT_STORAGE_KEY = Inr (JStr ''true''))
   \<and> (\<not> hasAcceptedAgreement s \<longrightarrow>
        (hasAcceptedAgreement (apply_actions (checkAgreementStatus st) s)
           \<longleftrightarrow> getItem st AGREEMENT_STORAGE_KEY = Inr (JStr ''true'')))
   \<and> (\<not> hasAcceptedAgreement s \<and> getItem st AGREEMENT_STORAGE_KEY \<noteq> Inr (JStr ''true'') \<longrightarrow>
        \<not> hasAcceptedAgreement (apply_actions (checkAgreementStatus st) s)
        \<and> render (apply_actions (checkAgreementStatus st) s) = AgreementView (agreementChecked s))"
  by (auto simp: checkAgreementStatus_def getItem_def render_def split: option.splits)

text \<open>At boot, with the store holding \<^verbatim>\<open>"1"\<close> under the key, the form is rendered.\<close>

theorem checkAgreementStatus_fail_closed_witness:
  "\<not> hasAcceptedAgreement initial_state
   \<and> getItem (empty_storage\<lparr>entries := [(AGREEMENT_STORAGE_KEY, ''1'')]\<rparr>)
        AGREEMENT_STORAGE_KEY \<noteq> Inr (JStr ''true'')
   \<and> \<not> hasAcceptedAgreement
        (apply_actions
           (checkAgreementStatus (empty_storage\<lparr>entries := [(AGREEMENT_STORAGE_KEY, ''1'')]\<rparr>))
           initial_state)
   \<and> render
        (apply_actions
           (checkAgreementStatus (empty_storage\<lparr>entries := [(AGREEMENT_STORAGE_KEY, ''1'')]\<rparr>))
           initial_state) = AgreementView False"
  using checkAgreementStatus_fail_closed
    [of "empty_storage\<lparr>entries := [(AGREEMENT_STORAGE_KEY, ''1'')]\<rparr>" initial_state]
  by (simp add: empty_storage_def initial_state_def getItem_def)

text \<open>
  Claim C7. Every execution of \<^verbatim>\<open>checkAgreementStatus\<close> ends the loading state: whatever
  the store holds and whether or not the read rejects, the handler calls
  \<^verbatim>\<open>setIsCheckingAgreement\<close> exactly once, with \<^verbatim>\<open>false\<close>, as its last effect, so
  \<^verbatim>\<open>isCheckingAgreement\<close> is false afterwards. A rejected read is only logged: the
  handler's effects are then the warning and that one call, and the state afterwards
  differs from the state before in \<^verbatim>\<open>isCheckingAgreement\<close> alone.
\<close>

theorem checkAgreementStatus_ends_loading:
  "length (filter is_SetIsCheckingAgreement (checkAgreementStatus st)) = 1
   \<and> last (checkAgreementStatus st) = SetIsCheckingAgreement False
   \<and> isCheckingAgreement (apply_actions (checkAgreementStatus st) s) = False
   \<and> (read_rejects st \<longrightarrow>
        checkAgreementStatus st =
          [ConsoleWarn ''Failed to read agreement preference'', SetIsCheckingAgreement False]
        \<and> apply_actions (checkAgreementStatus st) s = s\<lparr>isCheckingAgreement := False\<rparr>)"
  by (simp add: checkAgreementStatus_cases)

text \<open>At boot with a store whose read rejects, the loading view gives way to the form.\<close>

theorem checkAgreementStatus_ends_loading_witness:
  "read_rejects (empty_storage\<lparr>read_rejects := True\<rparr>)
   \<and> length (filter is_SetIsCheckingAgreement
        (checkAgreementStatus (empty_storage\<lparr>read_rejects := True\<rparr>))) = 1
   \<and> render (apply_actions (checkAgreementStatus (empty_storage\<lparr>read_rejects := True\<rparr>))
        initial_state) = AgreementView False"
  using checkAgreementStatus_ends_loading
    [of "empty_storage\<lparr>read_rejects := True\<rparr>" initial_state]
  by (simp add: empty_storage_def initial_state_def render_def)

text \<open>
  Claim C4. Acceptance is atomic. \<^verbatim>\<open>handleAcceptAgreement\<close> calls
  \<^verbatim>\<open>setHasAcceptedAgreement(true)\<close> if and only if the write of \<^verbatim>\<open>"true"\<close> under the fixed
  key succeeds; then the state afterwards is the state before with
  \<^verbatim>\<open>hasAcceptedAgreement\<close> true, and the store holds the acceptance. If the write rejects,
  the failure is swallowed and the component state and the store are what they were. So
  if the acceptance in memory agreed with the acceptance in the store before the call,
  it does afterwards.
\<close>

theorem acceptAgreement_atomic:
  "(SetHasAcceptedAgreement True \<in> set (fst (handleAcceptAgreement st))
      \<longleftrightarrow> (\<exists>st'. setItem st AGREEMENT_STORAGE_KEY ''true'' = Inr st'))
   \<and> (\<forall>st'. setItem st AGREEMENT_STORAGE_KEY ''true'' = Inr st' \<longrightarrow>
         dispatch AcceptAgreement (s, st) = (s\<lparr>hasAcceptedAgreement := True\<rparr>, st')
         \<and> persisted st')
   \<and> (\<forall>e. setItem st AGREEMENT_STORAGE_KEY ''true'' = Inl e \<longrightarrow>
         dispatch AcceptAgreement (s, st) = (s, st))
   \<and> ((hasAcceptedAgreement s \<longleftrightarrow> persisted st) \<longrightarrow>
        (hasAcceptedAgreement (fst (dispatch AcceptAgreement (s, st)))
           \<longleftrightarrow> persisted (snd (dispatch AcceptAgreement (s, st)))))"
  by (auto simp: handleAcceptAgreement_cases setItem_def persisted_def)

text \<open>
  On the agreement form with the box ticked: a rejected write changes nothing, a
  successful one accepts and persists.
\<close>

theorem acceptAgreement_atomic_witness:
  "setItem (empty_storage\<lparr>write_rejects := True\<rparr>) AGREEMENT_STORAGE_KEY ''true''
     = Inl StorageError
   \<and> dispatch AcceptAgreement
       (initial_state\<lparr>isCheckingAgreement := False, agreementChecked := True\<rparr>,
        empty_storage\<lparr>write_rejects := True\<rparr>)
     = (initial_state\<lparr>isCheckingAgreement := False, agreementChecked := True\<rparr>,
        empty_storage\<lparr>write_rejects := True\<rparr>)
   \<and> setItem empty_storage AGREEMENT_STORAGE_KEY ''true''
     = Inr (empty_storage\<lparr>entries := [(AGREEMENT_STORAGE_KEY, ''true'')]\<rparr>)
   \<and> hasAcceptedAgreement (fst (dispatch AcceptAgreement
       (initial_state\<lparr>isCheckingAgreement := False, agreementChecked := True\<rparr>,
        empty_storage)))
   \<and> persisted (empty_storage\<lparr>entries := [(AGREEMENT_STORAGE_KEY, ''true'')]\<rparr>)"
  using acceptAgreement_atomic
    [of "empty_storage\<lparr>write_rejects := True\<rparr>"
        "initial_state\<lparr>isCheckingAgreement := False, agreementChecked := True\<rparr>"]
    acceptAgreement_atomic
    [of empty_storage
        "initial_state\<lparr>isCheckingAgreement := False, agreementChecked := True\<rparr>"]
  by (simp add: setItem_def empty_storage_def)

text \<open>
  Claim C9. Acceptance is irreversible within a session. From any session state and
  along any sequence of events (the check, the acceptance, opening and closing a
  conversation, navigating, toggling the theme, the checkbox, the nav items, the store
  starting or ceasing to reject), once \<^verbatim>\<open>hasAcceptedAgreement\<close> is true after some
  prefix of the sequence it is true after every longer prefix.
\<close>

theorem accepted_is_terminal:
  "hasAcceptedAgreement (fst (run es1 sys)) \<Longrightarrow>
   hasAcceptedAgreement (fst (run (es1 @ es2) sys))"
  by (simp add: run_append run_keeps_accepted)

text \<open>
  A session that accepts at boot and then navigates, loses its store and retries both
  store operations.
\<close>

theorem accepted_is_terminal_witness:
  "hasAcceptedAgreement (fst (run [CheckAgreementStatus, PressCheckbox, AcceptAgreement]
      (initial_state, empty_storage)))
   \<and> hasAcceptedAgreement (fst (run
      ([CheckAgreementStatus, PressCheckbox, AcceptAgreement]
       @ [OpenConversation (JStr ''Alex''), ToggleTheme, CloseConversation,
          NavigateTab (JStr ''upload''), StoreRejects True True, AcceptAgreement,
          CheckAgreementStatus])
      (initial_state, empty_storage)))"
proof -
  have h: "hasAcceptedAgreement (fst (run [CheckAgreementStatus, PressCheckbox, AcceptAgreement]
      (initial_state, empty_storage)))"
    by (simp add: checkAgreementStatus_cases handleAcceptAgreement_cases
        onPressCheckbox_def empty_storage_def)
  from accepted_is_terminal [OF h] h show ?thesis by blast
qed

section \<open>The navigation coordinator\<close>

text \<open>
  Claim C5. Opening a conversation forces the memory tab. For every payload that carries
  a resolvable non-empty name \<open>n\<close> (the non-empty string \<open>n\<close> itself, or an object whose
  \<^verbatim>\<open>name\<close> field is that string), and from every state, whatever its \<^verbatim>\<open>activeTab\<close>,
  \<^verbatim>\<open>handleOpenConversation\<close> raises no error, sets \<^verbatim>\<open>activeConversation\<close> to the target
  built from the normalised payload, whose name is \<open>n\<close>, and then sets \<^verbatim>\<open>activeTab\<close> to
  \<^verbatim>\<open>'memory'\<close>.
\<close>

theorem openConversation_forces_memory:
  "resolvable_name payload = Some n \<Longrightarrow>
   n \<noteq> []
   \<and> handleOpenConversation payload =
       Inr [SetActiveConversation
              (normalizedTarget (if js_typeof payload = ''string''
                                 then JObj [(''name'', payload)] else payload)),
            SetActiveTab (JStr ''memory'')]
   \<and> activeTab (fst (dispatch (OpenConversation payload) (s, st))) = JStr ''memory''
   \<and> js_prop (activeConversation (fst (dispatch (OpenConversation payload) (s, st)))) ''name''
       = JStr n
   \<and> truthy (activeConversation (fst (dispatch (OpenConversation payload) (s, st))))"
  by (cases payload)
     (auto simp: handleOpenConversation_string handleOpenConversation_object normalizedTarget_def
           split: if_splits option.splits jsval.splits)

text \<open>\<^verbatim>\<open>openConversation({name: "Alex"})\<close> while \<^verbatim>\<open>activeTab\<close> is \<^verbatim>\<open>'upload'\<close>.\<close>

theorem openConversation_forces_memory_witness:
  "resolvable_name (JObj [(''name'', JStr ''Alex'')]) = Some ''Alex''
   \<and> activeTab (fst (dispatch (OpenConversation (JObj [(''name'', JStr ''Alex'')]))
        (initial_state\<lparr>activeTab := JStr ''upload''\<rparr>, empty_storage))) = JStr ''memory''
   \<and> js_prop (activeConversation (fst (dispatch (OpenConversation (JObj [(''name'', JStr ''Alex'')]))
        (initial_state\<lparr>activeTab := JStr ''upload''\<rparr>, empty_storage)))) ''name''
       = JStr ''Alex''"
proof -
  have h: "resolvable_name (JObj [(''name'', JStr ''Alex'')]) = Some ''Alex''"
    by simp
  from openConversation_forces_memory
    [OF h, of "initial_state\<lparr>activeTab := JStr ''upload''\<rparr>" empty_storage]
  show ?thesis using h by blast
qed

text \<open>
  Claim C6, as amended. \<^verbatim>\<open>handleOpenConversation\<close> never raises an error. It is a no-op,
  leaving the whole session state (\<^verbatim>\<open>activeConversation\<close>, \<^verbatim>\<open>activeTab\<close> and the theme
  flag included) as it was, for every payload that is falsy, or is neither a string nor
  an object, or is an object whose \<^verbatim>\<open>name\<close> field is falsy or missing; and these are
  the only payloads for which it performs no effect. The guard is on the truthiness of
  the name, not on its being a non-empty string.
\<close>

theorem openConversation_malformed_noop:
  "(\<exists>acts. handleOpenConversation payload = Inr acts)
   \<and> (\<not> truthy payload
       \<or> (js_typeof payload \<noteq> ''string'' \<and> js_typeof payload \<noteq> ''object'')
       \<or> (js_typeof payload = ''object'' \<and> \<not> truthy (js_prop payload ''name''))
       \<longrightarrow> handleOpenConversation payload = Inr []
           \<and> dispatch (OpenConversation payload) (s, st) = (s, st))
   \<and> (handleOpenConversation payload = Inr []
       \<longrightarrow> \<not> truthy payload
           \<or> (js_typeof payload \<noteq> ''string'' \<and> js_typeof payload \<noteq> ''object'')
           \<or> (js_typeof payload = ''object'' \<and> \<not> truthy (js_prop payload ''name'')))"
  by (cases payload)
     (auto simp: handleOpenConversation_string handleOpenConversation_object
                 handleOpenConversation_other handleOpenConversation_falsy)

text \<open>
  The five payloads \<^verbatim>\<open>null\<close>, \<^verbatim>\<open>undefined\<close>, \<^verbatim>\<open>""\<close>, \<^verbatim>\<open>{}\<close> and
  \<^verbatim>\<open>{highlightIndex: 2}\<close> leave the initial session as it is.
\<close>

theorem openConversation_malformed_noop_witness:
  "dispatch (OpenConversation JNull) (initial_state, empty_storage) = (initial_state, empty_storage)
   \<and> dispatch (OpenConversation JUndefined) (initial_state, empty_storage)
       = (initial_state, empty_storage)
   \<and> dispatch (OpenConversation (JStr [])) (initial_state, empty_storage)
       = (initial_state, empty_storage)
   \<and> dispatch (OpenConversation (JObj [])) (initial_state, empty_storage)
       = (initial_state, empty_storage)
   \<and> dispatch (OpenConversation (JObj [(''highlightIndex'', JNum 2)]))
       (initial_state, empty_storage) = (initial_state, empty_storage)"
proof -
  have "\<not> truthy JNull" "\<not> truthy JUndefined" "\<not> truthy (JStr [])"
    by simp_all
  moreover have
    "js_typeof (JObj []) = ''object'' \<and> \<not> truthy (js_prop (JObj []) ''name'')"
    "js_typeof (JObj [(''highlightIndex'', JNum 2)]) = ''object''
     \<and> \<not> truthy (js_prop (JObj [(''highlightIndex'', JNum 2)]) ''name'')"
    by simp_all
  ultimately show ?thesis
    using openConversation_malformed_noop [of JNull initial_state empty_storage]
      openConversation_malformed_noop [of JUndefined initial_state empty_storage]
      openConversation_malformed_noop [of "JStr []" initial_state empty_storage]
      openConversation_malformed_noop [of "JObj []" initial_state empty_storage]
      openConversation_malformed_noop
        [of "JObj [(''highlightIndex'', JNum 2)]" initial_state empty_storage]
    by blast
qed

text \<open>
  Claim C6 as stated fails: the payload \<^verbatim>\<open>{name: 5}\<close> carries no resolvable non-empty
  name, its name not being a string, yet the handler opens a conversation named \<open>5\<close>
  and the session state changes.
\<close>

theorem openConversation_malformed_noop_counterexample:
  "resolvable_name (JObj [(''name'', JNum 5)]) = None
   \<and> handleOpenConversation (JObj [(''name'', JNum 5)]) =
       Inr [SetActiveConversation
              (JObj [(''name'', JNum 5), (''highlightTimestamp'', JUndefined),
                     (''highlightIndex'', JUndefined), (''avatarUrl'', JUndefined),
                     (''headline'', JUndefined)]),
            SetActiveTab (JStr ''memory'')]
   \<and> dispatch (OpenConversation (JObj [(''name'', JNum 5)])) (initial_state, empty_storage)
       \<noteq> (initial_state, empty_storage)"
  by (simp add: handleOpenConversation_def destructure_def initial_state_def)

text \<open>
  Claim C10. The name guard of \<^verbatim>\<open>handleOpenConversation\<close> tests truthiness only. For
  every object payload whose \<^verbatim>\<open>name\<close> field is truthy, of whatever type, the handler
  sets \<^verbatim>\<open>activeConversation\<close> to a target whose name is that very value and sets
  \<^verbatim>\<open>activeTab\<close> to \<^verbatim>\<open>'memory'\<close>; an object payload is rejected, with no effect at all,
  exactly when its \<^verbatim>\<open>name\<close> field is falsy or missing.
\<close>

theorem openConversation_truthiness_guard:
  "(truthy (js_prop (JObj ps) ''name'') \<longrightarrow>
      handleOpenConversation (JObj ps) =
        Inr [SetActiveConversation (normalizedTarget (JObj ps)), SetActiveTab (JStr ''memory'')]
      \<and> js_prop (activeConversation (fst (dispatch (OpenConversation (JObj ps)) (s, st)))) ''name''
          = js_prop (JObj ps) ''name''
      \<and> activeTab (fst (dispatch (OpenConversation (JObj ps)) (s, st))) = JStr ''memory'')
   \<and> (\<not> truthy (js_prop (JObj ps) ''name'') \<longrightarrow>
        handleOpenConversation (JObj ps) = Inr []
        \<and> dispatch (OpenConversation (JObj ps)) (s, st) = (s, st))"
  by (simp add: handleOpenConversation_object normalizedTarget_def)

text \<open>The names \<open>5\<close> (accepted) and \<open>0\<close> (rejected).\<close>

theorem openConversation_truthiness_guard_witness:
  "truthy (js_prop (JObj [(''name'', JNum 5)]) ''name'')
   \<and> js_prop (activeConversation (fst (dispatch (OpenConversation (JObj [(''name'', JNum 5)]))
        (initial_state, empty_storage)))) ''name'' = JNum 5
   \<and> activeTab (fst (dispatch (OpenConversation (JObj [(''name'', JNum 5)]))
        (initial_state, empty_storage))) = JStr ''memory''
   \<and> \<not> truthy (js_prop (JObj [(''name'', JNum 0)]) ''name'')
   \<and> dispatch (OpenConversation (JObj [(''name'', JNum 0)])) (initial_state, empty_storage)
       = (initial_state, empty_storage)"
proof -
  have h5: "truthy (js_prop (JObj [(''name'', JNum 5)]) ''name'')"
    by simp
  have h0: "\<not> truthy (js_prop (JObj [(''name'', JNum 0)]) ''name'')"
    by simp
  have e: "js_prop (JObj [(''name'', JNum 5)]) ''name'' = JNum 5"
    by simp
  from openConversation_truthiness_guard
         [of "[(''name'', JNum 5)]" initial_state empty_storage] h5
  have a: "js_prop (activeConversation (fst (dispatch (OpenConversation
             (JObj [(''name'', JNum 5)])) (initial_state, empty_storage)))) ''name''
           = js_prop (JObj [(''name'', JNum 5)]) ''name''"
    and b: "activeTab (fst (dispatch (OpenConversation (JObj [(''name'', JNum 5)]))
             (initial_state, empty_storage))) = JStr ''memory''"
    by blast+
  from openConversation_truthiness_guard
         [of "[(''name'', JNum 0)]" initial_state empty_storage] h0
  have c: "dispatch (OpenConversation (JObj [(''name'', JNum 0)]))
             (initial_state, empty_storage) = (initial_state, empty_storage)"
    by blast
  show ?thesis using h5 h0 trans [OF a e] b c by blast
qed

text \<open>
  Claim C3, as amended. The guard of \<^verbatim>\<open>handleNavigateTab\<close> is on falsiness alone. If
  \<^verbatim>\<open>tab\<close> is falsy the handler is a no-op and the session state is unchanged. For every
  truthy \<^verbatim>\<open>tab\<close>, whether or not it is one of the four tab identifiers, the handler
  first calls \<^verbatim>\<open>setActiveConversation(null)\<close> and then \<^verbatim>\<open>setActiveTab(tab)\<close>: the
  conversation is cleared, and \<^verbatim>\<open>activeTab\<close> becomes the given value when that is not
  a function, and what the function returns for the previous \<^verbatim>\<open>activeTab\<close> when it is
  one. The four identifiers are truthy strings, so they are stored as given.
\<close>

theorem navigateTab_guard:
  "(\<not> truthy tab \<longrightarrow>
      handleNavigateTab tab = [] \<and> dispatch (NavigateTab tab) (s, st) = (s, st))
   \<and> (truthy tab \<longrightarrow>
        handleNavigateTab tab = [SetActiveConversation JNull, SetActiveTab tab])
   \<and> (truthy tab \<and> js_typeof tab \<noteq> ''function'' \<longrightarrow>
        dispatch (NavigateTab tab) (s, st)
          = (s\<lparr>activeConversation := JNull, activeTab := tab\<rparr>, st))
   \<and> (tab = JFun n graph dflt \<longrightarrow>
        dispatch (NavigateTab tab) (s, st)
          = (s\<lparr>activeConversation := JNull,
               activeTab := (case map_of graph (activeTab s) of
                               Some r \<Rightarrow> r | None \<Rightarrow> dflt)\<rparr>, st))
   \<and> (tab \<in> set tab_identifiers \<longrightarrow> truthy tab \<and> js_typeof tab \<noteq> ''function'')"
  by (cases tab) (auto simp: handleNavigateTab_def tab_identifiers_def)

text \<open>
  From an open conversation, \<^verbatim>\<open>navigateTab('highlights')\<close> closes it and switches;
  \<^verbatim>\<open>navigateTab(undefined)\<close> does nothing; \<^verbatim>\<open>navigateTab(() => 'upload')\<close> from the
  initial state stores \<^verbatim>\<open>'upload'\<close>, and \<^verbatim>\<open>navigateTab(function pick() {})\<close> stores
  \<^verbatim>\<open>undefined\<close>.
\<close>

theorem navigateTab_guard_witness:
  "truthy (JStr ''highlights'') \<and> js_typeof (JStr ''highlights'') \<noteq> ''function''
   \<and> dispatch (NavigateTab (JStr ''highlights''))
       (initial_state\<lparr>activeConversation := JObj [(''name'', JStr ''Alex'')],
                       activeTab := JStr ''memory''\<rparr>, empty_storage)
     = (initial_state\<lparr>activeConversation := JNull, activeTab := JStr ''highlights''\<rparr>,
        empty_storage)
   \<and> \<not> truthy JUndefined
   \<and> dispatch (NavigateTab JUndefined) (initial_state, empty_storage)
     = (initial_state, empty_storage)
   \<and> dispatch (NavigateTab (JFun [] [] (JStr ''upload''))) (initial_state, empty_storage)
     = (initial_state\<lparr>activeTab := JStr ''upload''\<rparr>, empty_storage)
   \<and> dispatch (NavigateTab (JFun ''pick'' [] JUndefined)) (initial_state, empty_storage)
     = (initial_state\<lparr>activeTab := JUndefined\<rparr>, empty_storage)"
proof -
  have h1: "truthy (JStr ''highlights'') \<and> js_typeof (JStr ''highlights'') \<noteq> ''function''"
    and h2: "\<not> truthy JUndefined"
    by simp_all
  from navigateTab_guard
         [of "JStr ''highlights''"
             "initial_state\<lparr>activeConversation := JObj [(''name'', JStr ''Alex'')],
                             activeTab := JStr ''memory''\<rparr>" empty_storage] h1
  have a: "dispatch (NavigateTab (JStr ''highlights''))
       (initial_state\<lparr>activeConversation := JObj [(''name'', JStr ''Alex'')],
                       activeTab := JStr ''memory''\<rparr>, empty_storage)
     = (initial_state\<lparr>activeConversation := JObj [(''name'', JStr ''Alex'')],
                       activeTab := JStr ''memory''\<rparr>
          \<lparr>activeConversation := JNull, activeTab := JStr ''highlights''\<rparr>, empty_storage)"
    by blast
  from navigateTab_guard [of JUndefined initial_state empty_storage] h2
  have b: "dispatch (NavigateTab JUndefined) (initial_state, empty_storage)
     = (initial_state, empty_storage)"
    by blast
  from navigateTab_guard
         [of "JFun [] [] (JStr ''upload'')" initial_state empty_storage
             "[]" "[]" "JStr ''upload''"]
  have c: "dispatch (NavigateTab (JFun [] [] (JStr ''upload''))) (initial_state, empty_storage)
     = (initial_state\<lparr>activeConversation := JNull,
          activeTab := (case map_of [] (activeTab initial_state) of
                          Some r \<Rightarrow> r | None \<Rightarrow> JStr ''upload'')\<rparr>, empty_storage)"
    by blast
  from navigateTab_guard
         [of "JFun ''pick'' [] JUndefined" initial_state empty_storage
             "''pick''" "[]" JUndefined]
  have d: "dispatch (NavigateTab (JFun ''pick'' [] JUndefined)) (initial_state, empty_storage)
     = (initial_state\<lparr>activeConversation := JNull,
          activeTab := (case map_of [] (activeTab initial_state) of
                          Some r \<Rightarrow> r | None \<Rightarrow> JUndefined)\<rparr>, empty_storage)"
    by blast
  show ?thesis using h1 h2 a b c d by (simp add: initial_state_def)
qed

text \<open>
  Claim C3 as stated fails: \<^verbatim>\<open>'profile'\<close> is not one of the four identifiers, yet
  \<^verbatim>\<open>navigateTab('profile')\<close> is no no-op: it clears the conversation and stores
  \<^verbatim>\<open>'profile'\<close> in \<^verbatim>\<open>activeTab\<close>, which was \<^verbatim>\<open>'home'\<close>.
\<close>

theorem navigateTab_guard_counterexample:
  "JStr ''profile'' \<notin> set tab_identifiers
   \<and> handleNavigateTab (JStr ''profile'')
       = [SetActiveConversation JNull, SetActiveTab (JStr ''profile'')]
   \<and> activeTab (fst (dispatch (NavigateTab (JStr ''profile'')) (initial_state, empty_storage)))
       = JStr ''profile''
   \<and> activeTab initial_state = JStr ''home''"
  by (simp add: handleNavigateTab_def initial_state_def tab_identifiers_def)

text \<open>
  Claim C8. \<^verbatim>\<open>toggleTheme\<close> changes \<^verbatim>\<open>isRetroTheme\<close> only: in every state it negates that
  flag and leaves \<^verbatim>\<open>activeTab\<close>, \<^verbatim>\<open>activeConversation\<close> and every other cell as they
  were, and toggling twice gives back the whole state, the theme flag included.
\<close>

theorem toggleTheme_frame:
  "apply_actions handleToggleTheme s = s\<lparr>isRetroTheme := \<not> isRetroTheme s\<rparr>
   \<and> activeTab (apply_actions handleToggleTheme s) = activeTab s
   \<and> activeConversation (apply_actions handleToggleTheme s) = activeConversation s
   \<and> apply_actions handleToggleTheme (apply_actions handleToggleTheme s) = s"
  by (simp add: handleToggleTheme_def)

section \<open>The rendering rule is exclusive\<close>

text \<open>
  Claim C1, as amended. After every sequence of events from the initial state, with any
  arguments to \<^verbatim>\<open>openConversation\<close> and \<^verbatim>\<open>navigateTab\<close>, the rendering rule never mounts
  a tab screen together with a conversation screen. Whenever \<^verbatim>\<open>activeConversation\<close> is
  present, exactly one screen is mounted and it is a conversation screen. Whenever it
  is absent, only tab screens are mounted, namely those of \<^verbatim>\<open>activeTab\<close>: exactly one
  when \<^verbatim>\<open>activeTab\<close> is one of the four tab identifiers, and none at all otherwise.
\<close>

theorem rendering_exclusive:
  "(truthy (activeConversation (fst (run evs (initial_state, st)))) \<longrightarrow>
      length (renderedScreens (fst (run evs (initial_state, st)))) = 1
      \<and> list_all is_conversation_screen (renderedScreens (fst (run evs (initial_state, st)))))
   \<and> (\<not> truthy (activeConversation (fst (run evs (initial_state, st)))) \<longrightarrow>
        list_all is_tab_screen (renderedScreens (fst (run evs (initial_state, st))))
        \<and> renderedScreens (fst (run evs (initial_state, st)))
            = tabScreens (isRetroTheme (fst (run evs (initial_state, st))))
                (activeTab (fst (run evs (initial_state, st))))
        \<and> (activeTab (fst (run evs (initial_state, st))) \<in> set tab_identifiers \<longrightarrow>
             length (renderedScreens (fst (run evs (initial_state, st)))) = 1)
        \<and> (activeTab (fst (run evs (initial_state, st))) \<notin> set tab_identifiers \<longrightarrow>
             renderedScreens (fst (run evs (initial_state, st))) = []))
   \<and> \<not> (list_ex is_tab_screen (renderedScreens (fst (run evs (initial_state, st))))
        \<and> list_ex is_conversation_screen (renderedScreens (fst (run evs (initial_state, st)))))"
  by (auto simp: renderedScreens_def tabScreens_def tab_identifiers_def)

text \<open>
  After \<^verbatim>\<open>openConversation("Alex")\<close> the conversation is present; after a further
  \<^verbatim>\<open>navigateTab('upload')\<close> it is absent and \<^verbatim>\<open>activeTab\<close> is one of the four.
\<close>

theorem rendering_exclusive_witness:
  "truthy (activeConversation
      (fst (run [OpenConversation (JStr ''Alex'')] (initial_state, empty_storage))))
   \<and> length (renderedScreens
      (fst (run [OpenConversation (JStr ''Alex'')] (initial_state, empty_storage)))) = 1
   \<and> list_all is_conversation_screen (renderedScreens
      (fst (run [OpenConversation (JStr ''Alex'')] (initial_state, empty_storage))))
   \<and> \<not> truthy (activeConversation
      (fst (run [OpenConversation (JStr ''Alex''), NavigateTab (JStr ''upload'')]
         (initial_state, empty_storage))))
   \<and> activeTab (fst (run [OpenConversation (JStr ''Alex''), NavigateTab (JStr ''upload'')]
         (initial_state, empty_storage))) \<in> set tab_identifiers
   \<and> length (renderedScreens
      (fst (run [OpenConversation (JStr ''Alex''), NavigateTab (JStr ''upload'')]
         (initial_state, empty_storage)))) = 1
   \<and> list_all is_tab_screen (renderedScreens
      (fst (run [OpenConversation (JStr ''Alex''), NavigateTab (JStr ''upload'')]
         (initial_state, empty_storage))))"
proof -
  have h1: "truthy (activeConversation
      (fst (run [OpenConversation (JStr ''Alex'')] (initial_state, empty_storage))))"
    by (simp add: handleOpenConversation_string normalizedTarget_def)
  have h2: "\<not> truthy (activeConversation
      (fst (run [OpenConversation (JStr ''Alex''), NavigateTab (JStr ''upload'')]
         (initial_state, empty_storage))))"
    by (simp add: handleOpenConversation_string handleNavigateTab_def)
  have h3: "activeTab (fst (run [OpenConversation (JStr ''Alex''), NavigateTab (JStr ''upload'')]
         (initial_state, empty_storage))) \<in> set tab_identifiers"
    by (simp add: handleOpenConversation_string handleNavigateTab_def tab_identifiers_def)
  from rendering_exclusive [of "[OpenConversation (JStr ''Alex'')]" empty_storage]
    rendering_exclusive
      [of "[OpenConversation (JStr ''Alex''), NavigateTab (JStr ''upload'')]" empty_storage]
  show ?thesis using h1 h2 h3 by blast
qed

text \<open>
  Claim C1 as stated fails in its last part: after \<^verbatim>\<open>navigateTab('settings')\<close> from the
  initial state no conversation is present and \<^verbatim>\<open>activeTab\<close> is \<^verbatim>\<open>'settings'\<close>, for
  which no screen exists, so no screen at all is mounted.
\<close>

theorem rendering_exclusive_counterexample:
  "\<not> truthy (activeConversation
       (fst (run [NavigateTab (JStr ''settings'')] (initial_state, empty_storage))))
   \<and> activeTab (fst (run [NavigateTab (JStr ''settings'')] (initial_state, empty_storage)))
       = JStr ''settings''
   \<and> renderedScreens
       (fst (run [NavigateTab (JStr ''settings'')] (initial_state, empty_storage))) = []"
  by (simp add: handleNavigateTab_def initial_state_def renderedScreens_def tabScreens_def)

end
